theory Spec2Isabelle
  imports Main "HOL-Library.Sublist"
begin

section \<open>Python values and string formatting\<close>

text \<open>
  The plugin (\<^verbatim>\<open>plugins/bap/utils/bap_taint.py\<close>) formats integers with
  \<^verbatim>\<open>'{:X}'\<close> (uppercase hexadecimal) and \<^verbatim>\<open>'{}'\<close> (decimal), joins strings with
  \<^verbatim>\<open>','.join\<close> and relies on the truthiness of \<^verbatim>\<open>x or default\<close>. Python integers
  are unbounded, so they are \<^typ>\<open>int\<close>; a negative number is formatted with a leading
  minus sign.
\<close>

datatype pyval = PNone | PInt int | PStr string

definition hex_digit :: "nat \<Rightarrow> char" where
  "hex_digit d = ''0123456789ABCDEF'' ! d"

fun hex_nat :: "nat \<Rightarrow> string" where
  "hex_nat n = (if n < 16 then [hex_digit n] else hex_nat (n div 16) @ [hex_digit (n mod 16)])"

declare hex_nat.simps [simp del]

definition format_X :: "int \<Rightarrow> string" where
  "format_X i = (if i < 0 then CHR ''-'' # hex_nat (nat (- i)) else hex_nat (nat i))"

text \<open>Reading a hexadecimal numeral back, to state what \<open>hex_nat\<close> produces.\<close>

definition hex_digit_value :: "char \<Rightarrow> nat" where
  "hex_digit_value c = length (takeWhile (\<lambda>x. x \<noteq> c) ''0123456789ABCDEF'')"

definition hex_value :: "string \<Rightarrow> nat" where
  "hex_value s = foldl (\<lambda>acc c. 16 * acc + hex_digit_value c) 0 s"

definition dec_digit :: "nat \<Rightarrow> char" where
  "dec_digit d = ''0123456789'' ! d"

fun dec_nat :: "nat \<Rightarrow> string" where
  "dec_nat n = (if n < 10 then [dec_digit n] else dec_nat (n div 10) @ [dec_digit (n mod 10)])"

declare dec_nat.simps [simp del]

definition format_d :: "int \<Rightarrow> string" where
  "format_d i = (if i < 0 then CHR ''-'' # dec_nat (nat (- i)) else dec_nat (nat i))"

fun join :: "string \<Rightarrow> string list \<Rightarrow> string" where
  "join sep [] = []"
| "join sep [x] = x"
| "join sep (x # y # ys) = x @ sep @ join sep (y # ys)"

text \<open>\<^verbatim>\<open>answer or default\<close>: \<^verbatim>\<open>None\<close>, the empty string and the number zero are falsy.\<close>

definition or_str :: "string option \<Rightarrow> string \<Rightarrow> string" where
  "or_str a d = (case a of None \<Rightarrow> d | Some s \<Rightarrow> if s = [] then d else s)"

definition or_long :: "int option \<Rightarrow> int \<Rightarrow> int" where
  "or_long a d = (case a of None \<Rightarrow> d | Some n \<Rightarrow> if n = 0 then d else n)"

section \<open>The host (IDA) as explicit state\<close>

text \<open>
  A callback receives the dictionary \<^verbatim>\<open>data\<close>; it is a Python function, so it may
  change the dictionary it is given and it may raise. Callbacks are compared by identity,
  which is the field \<open>cb_id\<close>.
\<close>

type_synonym payload = "string \<rightharpoonup> pyval"

record callback =
  cb_id :: nat
  cb_run :: "payload \<Rightarrow> payload \<times> bool"

datatype event =
    DisableScriptTimeout
  | AskStr int string string
  | AskLong int string
  | ExecScript string
  | RefreshIdaviewAnyway
  | Callback nat payload
  | Refresh

datatype error = KeyError string | CallbackRaised nat | Fatal string | AssertionError

record ida =
  script_timeout :: bool
  ScreenEA :: int
  journal :: "event list"

definition emit :: "event \<Rightarrow> ida \<Rightarrow> ida" where
  "emit e h = h\<lparr>journal := journal h @ [e]\<rparr>"

definition disable_script_timeout :: "ida \<Rightarrow> ida" where
  "disable_script_timeout h = emit DisableScriptTimeout (h\<lparr>script_timeout := False\<rparr>)"

text \<open>
  What the session builder obtains from outside \<^verbatim>\<open>bap_taint.py\<close>: the answers to the two
  prompts (\<^verbatim>\<open>None\<close> when the dialog is cancelled), the names of the temporary files
  handed out by \<^verbatim>\<open>BapIda.tmpfile\<close> for a suffix, the function name IDA reports for an
  address, and the argument list \<^verbatim>\<open>self.args\<close> as the base class constructor left it.
\<close>

record env =
  askstr_answer :: "string option"
  asklong_answer :: "int option"
  tmpfile_name :: "string \<Rightarrow> string"
  GetFunctionName :: "int \<Rightarrow> string"
  super_args :: "string list"

definition askstr :: "env \<Rightarrow> int \<Rightarrow> string \<Rightarrow> string \<Rightarrow> ida \<Rightarrow> string option \<times> ida" where
  "askstr e hist defval prompt h = (askstr_answer e, emit (AskStr hist defval prompt) h)"

definition asklong :: "env \<Rightarrow> int \<Rightarrow> string \<Rightarrow> ida \<Rightarrow> int option \<times> ida" where
  "asklong e defval prompt h = (asklong_answer e, emit (AskLong defval prompt) h)"

section \<open>Temporary files\<close>

record tmpf =
  name :: string
  content :: string
  closed :: bool

definition tmpfile :: "env \<Rightarrow> string \<Rightarrow> tmpf" where
  "tmpfile e sfx = \<lparr>name = tmpfile_name e sfx, content = [], closed = False\<rparr>"

definition file_write :: "tmpf \<Rightarrow> string \<Rightarrow> tmpf" where
  "file_write f s = f\<lparr>content := content f @ s\<rparr>"

definition file_close :: "tmpf \<Rightarrow> tmpf" where
  "file_close f = f\<lparr>closed := True\<rparr>"

section \<open>\<^verbatim>\<open>PropagateTaint\<close>: the session builder\<close>

definition patterns :: "(string \<times> string) list" where
  "patterns = [(''true'', ''gray''), (''is-visited'', ''white''),
               (''has-taints'', ''red''), (''taints'', ''yellow'')]"

definition ENGINE_HISTORY :: int where "ENGINE_HISTORY = 117342"

definition ask_engine :: string where
  "ask_engine = ''What engine would you like, primus or legacy?''"

definition ask_depth :: string where
  "ask_depth = ''For how many RTL instructions to propagate?''"

definition ENGINE :: string where "ENGINE = ''primus''"
definition DEPTH :: int where "DEPTH = 4096"
definition LOOP_DEPTH :: int where "LOOP_DEPTH = 64"

record params =
  engine :: string
  depth :: int
  loop_depth :: int

text \<open>Lines 45 to 53 of \<^verbatim>\<open>PropagateTaint.__init__\<close>: the timeout and the two prompts.\<close>

definition resolve_parameters :: "env \<Rightarrow> ida \<Rightarrow> params \<times> ida" where
  "resolve_parameters e h0 =
     (let h1 = disable_script_timeout h0;
          (a1, h2) = askstr e ENGINE_HISTORY ENGINE ask_engine h1;
          (a2, h3) = asklong e DEPTH ask_depth h2
      in (\<lparr>engine = or_str a1 ENGINE, depth = or_long a2 DEPTH, loop_depth = LOOP_DEPTH\<rparr>, h3))"

text \<open>The line written to the scheme file for one pattern.\<close>

definition scheme_line :: "string \<times> string \<Rightarrow> string" where
  "scheme_line pc = ''(('' @ fst pc @ '') (color '' @ snd pc @ ''))'' @ [CHR 0x0A]"

text \<open>
  The object after \<^verbatim>\<open>__init__\<close>: its attributes \<open>action\<close>, \<open>passes\<close>, \<open>script\<close> and
  \<open>args\<close>, and the three file objects the constructor holds in local variables.
\<close>

record session =
  action :: string
  passes :: "string list"
  script :: tmpf
  args :: "string list"
  scheme :: tmpf
  stdin :: tmpf
  stdout :: tmpf

definition base_arguments :: "string \<Rightarrow> int \<Rightarrow> string list \<Rightarrow> string \<Rightarrow> string \<Rightarrow> string list" where
  "base_arguments kind addr ps scheme_name script_name =
     [''--taint-'' @ kind, ''0x'' @ format_X addr,
      ''--passes'', join '','' ps,
      ''--map-terms-using'', scheme_name,
      ''--emit-ida-script-attr'', ''color'',
      ''--emit-ida-script-file'', script_name]"

definition primus_arguments :: "string \<Rightarrow> int \<Rightarrow> int \<Rightarrow> string \<Rightarrow> string \<Rightarrow> string list" where
  "primus_arguments fname d ld stdin_name stdout_name =
     [''--run-entry-points='' @ fname,
      ''--primus-limit-max-length='' @ format_d d,
      ''--primus-limit-max-visited='' @ format_d ld,
      ''--primus-promiscuous-mode'',
      ''--primus-greedy-scheduler'',
      ''--primus-propagate-taint-from-attributes'',
      ''--primus-propagate-taint-to-attributes'',
      ''--primus-lisp-channel-redirect=<stdin>:'' @ stdin_name @ '',<stdout>:'' @ stdout_name]"

definition PropagateTaint_init :: "env \<Rightarrow> int \<Rightarrow> string \<Rightarrow> ida \<Rightarrow> session \<times> ida" where
  "PropagateTaint_init e addr kind h0 =
     (let (p, h) = resolve_parameters e h0;
          act = ''propagating taint from '' @ (if kind = ''ptr'' then ''*'' else '''')
                  @ ''0x'' @ format_X addr;
          propagate = (if engine p = ''primus'' then ''run'' else ''propagate-taint'');
          ps = [''taint'', propagate, ''map-terms'', ''emit-ida-script''];
          script_f = tmpfile e ''py'';
          scheme0 = tmpfile e ''scm'';
          stdin_f = tmpfile e ''stdin'';
          stdout_f = tmpfile e ''stdout'';
          scheme1 = foldl (\<lambda>f pc. file_write f (scheme_line pc)) scheme0 patterns;
          scheme2 = file_close scheme1;
          fname = GetFunctionName e addr;
          args1 = super_args e @ base_arguments kind addr ps (name scheme2) (name script_f);
          args2 = (if engine p = ''primus''
                   then args1 @ primus_arguments fname (depth p) (loop_depth p)
                                  (name stdin_f) (name stdout_f)
                   else args1)
      in (\<lparr>action = act, passes = ps, script = script_f, args = args2,
           scheme = scheme2, stdin = stdin_f, stdout = stdout_f\<rparr>, h))"

section \<open>\<^verbatim>\<open>BapTaint\<close>: the callback registry and the completion handler\<close>

text \<open>
  The class attribute \<^verbatim>\<open>_callbacks\<close> is a dictionary from the two kinds to lists of
  callbacks; it is shared by the whole process, so it is passed and returned explicitly.
\<close>

type_synonym registry = "string \<rightharpoonup> callback list"

definition initial_callbacks :: registry where
  "initial_callbacks = [''ptr'' \<mapsto> [], ''reg'' \<mapsto> []]"

text \<open>
  The loop of \<^verbatim>\<open>_do_callbacks\<close>. Each callback is called with the one dictionary
  \<^verbatim>\<open>data\<close>, so a later callback sees what an earlier one stored in it. Nothing catches
  an exception: a callback that raises ends the loop.
\<close>

fun for_callbacks :: "callback list \<Rightarrow> payload \<Rightarrow> ida \<Rightarrow> ida \<times> error option" where
  "for_callbacks [] data h = (h, None)"
| "for_callbacks (cb # cbs) data h =
     (let h' = emit (Callback (cb_id cb) data) h;
          (data', raised) = cb_run cb data
      in if raised then (h', Some (CallbackRaised (cb_id cb)))
         else for_callbacks cbs data' h')"

definition do_callbacks :: "registry \<Rightarrow> string \<Rightarrow> ida \<Rightarrow> ida \<times> error option" where
  "do_callbacks reg ptr_or_reg h =
     (let data = [''ea'' \<mapsto> PInt (ScreenEA h), ''ptr_or_reg'' \<mapsto> PStr ptr_or_reg]
      in case reg ptr_or_reg of
           None \<Rightarrow> (h, Some (KeyError ptr_or_reg))
         | Some cbs \<Rightarrow> for_callbacks cbs data h)"

text \<open>
  \<^verbatim>\<open>install_callback\<close>. \<^verbatim>\<open>idc.Fatal\<close> belongs to the host and \<^verbatim>\<open>repr\<close> to Python:
  the call of \<^verbatim>\<open>idc.Fatal\<close> is the error value \<open>Fatal\<close> with the message it is given,
  and \<open>repr\<close> is a parameter.
\<close>

function install_callback ::
  "(pyval \<Rightarrow> string) \<Rightarrow> callback \<Rightarrow> pyval \<Rightarrow> registry \<Rightarrow> registry \<times> error option" where
  "install_callback repr callback_fn PNone reg =
     (case install_callback repr callback_fn (PStr ''ptr'') reg of
        (reg1, Some err) \<Rightarrow> (reg1, Some err)
      | (reg1, None) \<Rightarrow> install_callback repr callback_fn (PStr ''reg'') reg1)"
| "install_callback repr callback_fn (PStr s) reg =
     (if s = ''ptr'' \<or> s = ''reg''
      then (case reg s of
              None \<Rightarrow> (reg, Some (KeyError s))
            | Some cbs \<Rightarrow> (reg(s \<mapsto> cbs @ [callback_fn]), None))
      else (reg, Some (Fatal (''Invalid ptr_or_reg value passed '' @ repr (PStr s)))))"
| "install_callback repr callback_fn (PInt i) reg =
     (reg, Some (Fatal (''Invalid ptr_or_reg value passed '' @ repr (PInt i))))"
  by pat_completeness auto
termination
  by (relation "measure (\<lambda>(r, c, v, g). if v = PNone then 1 else 0)") auto

text \<open>The plugin object: \<^verbatim>\<open>BapTaint.__init__\<close> asserts the kind.\<close>

record plugin =
  kind :: string
  wanted_name :: string

definition BapTaint_init :: "string \<Rightarrow> error + plugin" where
  "BapTaint_init k =
     (if k = ''ptr'' \<or> k = ''reg''
      then Inr \<lparr>kind = k,
                wanted_name = ''BAP: Taint'' @ (if k = ''ptr'' then ''pointer'' else ''value'')\<rparr>
      else Inl AssertionError)"

text \<open>
  \<^verbatim>\<open>start\<close> builds the session for the address under the cursor; the base class then
  launches the engine (\<^verbatim>\<open>on_finish\<close>, \<^verbatim>\<open>run\<close>) and calls \<^verbatim>\<open>finish\<close> with the
  session when the engine is done.
\<close>

definition start :: "plugin \<Rightarrow> env \<Rightarrow> ida \<Rightarrow> session \<times> ida" where
  "start self e h = PropagateTaint_init e (ScreenEA h) (kind self) h"

definition finish :: "plugin \<Rightarrow> registry \<Rightarrow> session \<Rightarrow> ida \<Rightarrow> ida \<times> error option" where
  "finish self reg bap h =
     (let h1 = emit (ExecScript (name (script bap))) h;
          h2 = emit RefreshIdaviewAnyway h1;
          (h3, err) = do_callbacks reg (kind self) h2
      in case err of
           Some x \<Rightarrow> (h3, Some x)
         | None \<Rightarrow> (emit Refresh h3, None))"

text \<open>Reading a journal: the callbacks invoked, and the dictionaries one callback was given.\<close>

fun invoked :: "event list \<Rightarrow> nat list" where
  "invoked [] = []"
| "invoked (Callback i d # es) = i # invoked es"
| "invoked (e # es) = invoked es"

fun payloads_of :: "nat \<Rightarrow> event list \<Rightarrow> payload list" where
  "payloads_of i [] = []"
| "payloads_of i (Callback j d # es) = (if i = j then d # payloads_of i es else payloads_of i es)"
| "payloads_of i (e # es) = payloads_of i es"

text \<open>
  The dictionary each callback of a list is called with, as long as those before it
  return: the first one gets \<^verbatim>\<open>data\<close>, the next one gets it as its predecessor left
  it. \<open>returning\<close> counts the callbacks at the head of the list that return normally
  on the dictionary they are called with; it is the position of the first one that
  raises, or the length of the list when none does.
\<close>

fun handed :: "callback list \<Rightarrow> payload \<Rightarrow> payload list" where
  "handed [] d = []"
| "handed (c # cs) d = d # handed cs (fst (cb_run c d))"

definition returning :: "callback list \<Rightarrow> payload \<Rightarrow> nat" where
  "returning cbs d =
     length (takeWhile (\<lambda>(c, x). \<not> snd (cb_run c x)) (zip cbs (handed cbs d)))"

section \<open>Example inputs\<close>

definition example_env :: env where
  "example_env = \<lparr>askstr_answer = None, asklong_answer = None,
                  tmpfile_name = (\<lambda>s. ''/tmp/ida-bap.'' @ s),
                  GetFunctionName = (\<lambda>a. ''main''),
                  super_args = [''bap'', ''/bin/true'']\<rparr>"

definition example_ida :: ida where
  "example_ida = \<lparr>script_timeout = True, ScreenEA = 0x401000, journal = []\<rparr>"

text \<open>
  A callback that returns and leaves the dictionary alone, one that raises, a stand-in
  for \<^verbatim>\<open>repr\<close> (right for strings that need no escaping), a plugin object for the
  register gesture and a registry whose first pointer callback raises.
\<close>

definition quiet_callback :: "nat \<Rightarrow> callback" where
  "quiet_callback i = \<lparr>cb_id = i, cb_run = (\<lambda>d. (d, False))\<rparr>"

definition raising_callback :: "nat \<Rightarrow> callback" where
  "raising_callback i = \<lparr>cb_id = i, cb_run = (\<lambda>d. (d, True))\<rparr>"

fun example_repr :: "pyval \<Rightarrow> string" where
  "example_repr PNone = ''None''"
| "example_repr (PInt i) = format_d i"
| "example_repr (PStr s) = [CHR 0x27] @ s @ [CHR 0x27]"

definition example_plugin :: plugin where
  "example_plugin = \<lparr>kind = ''reg'', wanted_name = ''BAP: Taintvalue''\<rparr>"

definition example_registry :: registry where
  "example_registry = [''ptr'' \<mapsto> [quiet_callback 1, raising_callback 2, quiet_callback 3],
                       ''reg'' \<mapsto> [quiet_callback 7]]"

definition moved_cursor :: "ida \<Rightarrow> ida" where
  "moved_cursor h = h\<lparr>ScreenEA := 0x402000\<rparr>"

definition quiet_registry :: registry where
  "quiet_registry = [''ptr'' \<mapsto> [quiet_callback 1], ''reg'' \<mapsto> [quiet_callback 7]]"

text \<open>
  A callback that raises only when it is called for a pointer dispatch, and a registry
  holding it between two quiet callbacks.
\<close>

definition picky_callback :: "nat \<Rightarrow> callback" where
  "picky_callback i =
     \<lparr>cb_id = i, cb_run = (\<lambda>d. (d, d ''ptr_or_reg'' = Some (PStr ''ptr'')))\<rparr>"

definition picky_registry :: registry where
  "picky_registry = [''ptr'' \<mapsto> [quiet_callback 1, picky_callback 2, quiet_callback 3],
                     ''reg'' \<mapsto> [quiet_callback 1, picky_callback 2, quiet_callback 3]]"

section \<open>Facts about the session builder\<close>

lemma resolve_parameters_fst:
  "fst (resolve_parameters e h) =
     \<lparr>engine = or_str (askstr_answer e) ENGINE, depth = or_long (asklong_answer e) DEPTH,
      loop_depth = LOOP_DEPTH\<rparr>"
  by (simp add: resolve_parameters_def askstr_def asklong_def Let_def)

lemma resolve_parameters_snd:
  "snd (resolve_parameters e h) =
     h\<lparr>script_timeout := False,
       journal := journal h @ [DisableScriptTimeout, AskStr ENGINE_HISTORY ENGINE ask_engine,
                               AskLong DEPTH ask_depth]\<rparr>"
  by (simp add: resolve_parameters_def askstr_def asklong_def Let_def emit_def
        disable_script_timeout_def)

lemma init_snd: "snd (PropagateTaint_init e a k h) = snd (resolve_parameters e h)"
  by (simp add: PropagateTaint_init_def Let_def split_def)

lemma init_args:
  "args (fst (PropagateTaint_init e a k h)) =
     super_args e
     @ base_arguments k a
         [''taint'',
          if engine (fst (resolve_parameters e h)) = ''primus'' then ''run'' else ''propagate-taint'',
          ''map-terms'', ''emit-ida-script'']
         (tmpfile_name e ''scm'') (tmpfile_name e ''py'')
     @ (if engine (fst (resolve_parameters e h)) = ''primus''
        then primus_arguments (GetFunctionName e a) (depth (fst (resolve_parameters e h)))
               (loop_depth (fst (resolve_parameters e h)))
               (tmpfile_name e ''stdin'') (tmpfile_name e ''stdout'')
        else [])"
  by (simp add: PropagateTaint_init_def Let_def split_def tmpfile_def file_close_def
        file_write_def patterns_def)

lemma init_passes:
  "passes (fst (PropagateTaint_init e a k h)) =
     [''taint'',
      if engine (fst (resolve_parameters e h)) = ''primus'' then ''run'' else ''propagate-taint'',
      ''map-terms'', ''emit-ida-script'']"
  by (simp add: PropagateTaint_init_def Let_def split_def)

lemma init_names:
  "name (script (fst (PropagateTaint_init e a k h))) = tmpfile_name e ''py''"
  "name (scheme (fst (PropagateTaint_init e a k h))) = tmpfile_name e ''scm''"
  "name (stdin (fst (PropagateTaint_init e a k h))) = tmpfile_name e ''stdin''"
  "name (stdout (fst (PropagateTaint_init e a k h))) = tmpfile_name e ''stdout''"
  by (simp_all add: PropagateTaint_init_def Let_def split_def tmpfile_def file_close_def
        file_write_def patterns_def)

lemma init_scheme:
  "content (scheme (fst (PropagateTaint_init e a k h))) = concat (map scheme_line patterns)"
  "closed (scheme (fst (PropagateTaint_init e a k h)))"
  by (simp_all add: PropagateTaint_init_def Let_def split_def tmpfile_def file_close_def
        file_write_def patterns_def)

lemma hex_digit_in: "d < 16 \<Longrightarrow> hex_digit d \<in> set ''0123456789ABCDEF''"
  unfolding hex_digit_def by (rule nth_mem) simp

lemma hex_nat_chars: "set (hex_nat n) \<subseteq> set ''0123456789ABCDEF''"
proof (induction n rule: hex_nat.induct)
  case (1 n)
  show ?case
  proof (cases "n < 16")
    case True
    then show ?thesis using hex_digit_in [of n] by (subst hex_nat.simps) simp
  next
    case False
    have "n mod 16 < 16" by simp
    then have "hex_digit (n mod 16) \<in> set ''0123456789ABCDEF''" by (rule hex_digit_in)
    with False "1.IH" show ?thesis by (subst hex_nat.simps) simp
  qed
qed

lemma hex_digit_value_inverse: "d < 16 \<Longrightarrow> hex_digit_value (hex_digit d) = d"
proof -
  assume "d < 16"
  then have "d = 0 \<or> d = 1 \<or> d = 2 \<or> d = 3 \<or> d = 4 \<or> d = 5 \<or> d = 6 \<or> d = 7 \<or> d = 8
      \<or> d = 9 \<or> d = 10 \<or> d = 11 \<or> d = 12 \<or> d = 13 \<or> d = 14 \<or> d = 15"
    by arith
  then show ?thesis
    by (elim disjE) (simp_all add: hex_digit_def hex_digit_value_def)
qed

lemma hex_value_hex_nat: "hex_value (hex_nat n) = n"
proof (induction n rule: hex_nat.induct)
  case (1 n)
  show ?case
  proof (cases "n < 16")
    case True
    then show ?thesis
      by (subst hex_nat.simps) (simp add: hex_value_def hex_digit_value_inverse)
  next
    case False
    have digit: "hex_digit_value (hex_digit (n mod 16)) = n mod 16"
      by (rule hex_digit_value_inverse) simp
    have "hex_value (hex_nat n) = 16 * hex_value (hex_nat (n div 16)) + n mod 16"
      using False digit by (subst hex_nat.simps) (simp add: hex_value_def)
    also have "\<dots> = 16 * (n div 16) + n mod 16"
      using "1.IH" False by simp
    finally show ?thesis by simp
  qed
qed

lemma format_X_nonneg: "0 \<le> a \<Longrightarrow> format_X a = hex_nat (nat a)"
  by (simp add: format_X_def)

lemma format_d_LOOP_DEPTH: "format_d LOOP_DEPTH = ''64''"
  by (simp add: format_d_def LOOP_DEPTH_def dec_nat.simps dec_digit_def)

lemma format_d_DEPTH: "format_d DEPTH = ''4096''"
  by (simp add: format_d_def DEPTH_def dec_nat.simps dec_digit_def)

lemma format_X_example: "format_X 0x401000 = ''401000''"
  by (simp add: format_X_def hex_nat.simps hex_digit_def)

lemma example_env_simps:
  "askstr_answer example_env = None" "asklong_answer example_env = None"
  "tmpfile_name example_env s = ''/tmp/ida-bap.'' @ s"
  "GetFunctionName example_env a = ''main''"
  "super_args example_env = [''bap'', ''/bin/true'']"
  by (simp_all add: example_env_def)

lemma not_option_prefix:
  "\<not> prefix ''--'' t \<Longrightarrow> \<not> prefix ''--primus-'' t \<and> \<not> prefix ''--run-entry-points'' t"
  by (cases t; cases "tl t") auto

section \<open>Facts about dispatch and installation\<close>

lemma invoked_append: "invoked (xs @ ys) = invoked xs @ invoked ys"
  by (induction xs rule: invoked.induct) simp_all

lemma payloads_of_append: "payloads_of i (xs @ ys) = payloads_of i xs @ payloads_of i ys"
  by (induction i xs rule: payloads_of.induct) simp_all

lemma length_handed: "length (handed cbs d) = length cbs"
  by (induction cbs arbitrary: d) simp_all

lemma invoked_calls:
  "invoked (map (\<lambda>(c, x). Callback (cb_id c) x) zs) = map (\<lambda>z. cb_id (fst z)) zs"
  by (induction zs) (simp_all add: split_def)

lemma returning_Cons:
  "returning (c # cbs) d =
     (if snd (cb_run c d) then 0 else Suc (returning cbs (fst (cb_run c d))))"
  by (simp add: returning_def)

lemma returning_Nil: "returning [] d = 0"
  by (simp add: returning_def)

lemma returning_le: "returning cbs d \<le> length cbs"
proof -
  have "returning cbs d \<le> length (zip cbs (handed cbs d))"
    unfolding returning_def by (rule length_takeWhile_le)
  then show ?thesis by (simp add: length_handed)
qed

lemma returning_before:
  assumes "i < returning cbs d"
  shows "\<not> snd (cb_run (cbs ! i) (handed cbs d ! i))"
  using assms
proof (induction cbs arbitrary: d i)
  case Nil
  then show ?case by (simp add: returning_def)
next
  case (Cons c cbs)
  from Cons.prems have ok: "\<not> snd (cb_run c d)"
    by (simp add: returning_Cons split: if_splits)
  show ?case
  proof (cases i)
    case 0
    with ok show ?thesis by simp
  next
    case (Suc j)
    with Cons.prems ok have "j < returning cbs (fst (cb_run c d))"
      by (simp add: returning_Cons)
    from Cons.IH [OF this] Suc show ?thesis by simp
  qed
qed

lemma returning_at:
  assumes "returning cbs d < length cbs"
  shows "snd (cb_run (cbs ! returning cbs d) (handed cbs d ! returning cbs d))"
  using assms
proof (induction cbs arbitrary: d)
  case Nil
  then show ?case by simp
next
  case (Cons c cbs)
  show ?case
  proof (cases "snd (cb_run c d)")
    case True
    then show ?thesis by (simp add: returning_Cons)
  next
    case False
    with Cons.prems have "returning cbs (fst (cb_run c d)) < length cbs"
      by (simp add: returning_Cons)
    from Cons.IH [OF this] False show ?thesis by (simp add: returning_Cons)
  qed
qed

lemma for_callbacks_trace:
  "for_callbacks cbs d h =
     (h\<lparr>journal := journal h @ map (\<lambda>(c, x). Callback (cb_id c) x)
                                   (take (Suc (returning cbs d)) (zip cbs (handed cbs d)))\<rparr>,
      if returning cbs d = length cbs then None
      else Some (CallbackRaised (cb_id (cbs ! returning cbs d))))"
proof (induction cbs arbitrary: d h)
  case Nil
  then show ?case by (simp add: returning_def)
next
  case (Cons c cbs)
  show ?case
  proof (cases "snd (cb_run c d)")
    case True
    then show ?thesis
      by (simp add: returning_Cons Let_def split_def emit_def)
  next
    case False
    then show ?thesis
      by (simp add: returning_Cons Let_def split_def emit_def Cons.IH)
  qed
qed

lemma for_callbacks_quiet:
  assumes "\<forall>c \<in> set pre. cb_run c d = (d, False)"
  shows "for_callbacks (pre @ post) d h
           = for_callbacks post d (h\<lparr>journal := journal h @ map (\<lambda>c. Callback (cb_id c) d) pre\<rparr>)"
  using assms
proof (induction pre arbitrary: h)
  case Nil
  then show ?case by simp
next
  case (Cons c pre)
  from Cons.prems have c: "cb_run c d = (d, False)" by simp
  from Cons.prems have rest: "\<forall>c \<in> set pre. cb_run c d = (d, False)" by simp
  show ?case
    using c Cons.IH [OF rest, of "emit (Callback (cb_id c) d) h"]
    by (simp add: Let_def emit_def)
qed

lemma payloads_of_others:
  "\<forall>c \<in> set cbs. cb_id c \<noteq> i \<Longrightarrow> payloads_of i (map (\<lambda>c. Callback (cb_id c) d) cbs) = []"
  by (induction cbs) auto

lemma install_callback_both:
  assumes "reg ''ptr'' = Some ps" and "reg ''reg'' = Some rs"
  shows "install_callback repr cb PNone reg
           = (reg(''ptr'' \<mapsto> ps @ [cb], ''reg'' \<mapsto> rs @ [cb]), None)"
  using assms by simp

lemma do_callbacks_after_quiet:
  assumes "reg k = Some (pre @ [cb])"
    and "\<forall>c \<in> set pre. cb_run c [''ea'' \<mapsto> PInt (ScreenEA h), ''ptr_or_reg'' \<mapsto> PStr k]
                          = ([''ea'' \<mapsto> PInt (ScreenEA h), ''ptr_or_reg'' \<mapsto> PStr k], False)"
  shows "do_callbacks reg k h =
           (h\<lparr>journal := journal h
                 @ map (\<lambda>c. Callback (cb_id c) [''ea'' \<mapsto> PInt (ScreenEA h), ''ptr_or_reg'' \<mapsto> PStr k]) pre
                 @ [Callback (cb_id cb) [''ea'' \<mapsto> PInt (ScreenEA h), ''ptr_or_reg'' \<mapsto> PStr k]]\<rparr>,
            if snd (cb_run cb [''ea'' \<mapsto> PInt (ScreenEA h), ''ptr_or_reg'' \<mapsto> PStr k])
            then Some (CallbackRaised (cb_id cb)) else None)"
  using assms(1)
  by (simp add: do_callbacks_def Let_def for_callbacks_quiet [OF assms(2)] split_def emit_def)

section \<open>Claims about the session builder\<close>

text \<open>
  Claim C1. For an address \<open>a \<ge> 0\<close> and a kind \<open>ptr\<close> or \<open>reg\<close>, the arguments the
  session builder appends to \<^verbatim>\<open>self.args\<close> start with the token \<^verbatim>\<open>--taint-<kind>\<close>,
  immediately followed by \<^verbatim>\<open>0x\<close> and the address in uppercase hexadecimal (digits
  \<^verbatim>\<open>0-9A-F\<close> that read back as the address), then
  \<^verbatim>\<open>--passes\<close> with \<^verbatim>\<open>taint\<close>, \<^verbatim>\<open>run\<close> (Primus) or \<^verbatim>\<open>propagate-taint\<close> (Legacy),
  \<^verbatim>\<open>map-terms\<close>, \<^verbatim>\<open>emit-ida-script\<close>, then the scheme file, the attribute \<^verbatim>\<open>color\<close>
  and the script file. That taint token is the only taint-qualifier token appended,
  provided the two file names handed out by \<^verbatim>\<open>tmpfile\<close> are not such tokens themselves.
\<close>

theorem base_arguments_of_session:
  assumes "k = ''ptr'' \<or> k = ''reg''" and "0 \<le> a"
    and "tmpfile_name e ''scm'' \<notin> {''--taint-ptr'', ''--taint-reg''}"
    and "tmpfile_name e ''py'' \<notin> {''--taint-ptr'', ''--taint-reg''}"
  shows "let s = fst (PropagateTaint_init e a k h);
             primus = (engine (fst (resolve_parameters e h)) = ''primus'');
             built = drop (length (super_args e)) (args s)
         in args s = super_args e @ built
          \<and> take 10 built =
              [''--taint-'' @ k, ''0x'' @ hex_nat (nat a),
               ''--passes'',
               ''taint,'' @ (if primus then ''run'' else ''propagate-taint'')
                 @ '',map-terms,emit-ida-script'',
               ''--map-terms-using'', name (scheme s),
               ''--emit-ida-script-attr'', ''color'',
               ''--emit-ida-script-file'', name (script s)]
          \<and> filter (\<lambda>t. t = ''--taint-ptr'' \<or> t = ''--taint-reg'') built = [''--taint-'' @ k]
          \<and> set (hex_nat (nat a)) \<subseteq> set ''0123456789ABCDEF''
          \<and> int (hex_value (hex_nat (nat a))) = a
          \<and> passes s = [''taint'', if primus then ''run'' else ''propagate-taint'',
                         ''map-terms'', ''emit-ida-script'']"
  using assms hex_nat_chars [of "nat a"]
  by (auto simp add: Let_def init_args init_passes init_names base_arguments_def
        primus_arguments_def format_X_nonneg hex_value_hex_nat)

theorem base_arguments_of_session_witness:
  "(''reg'' = ''ptr'' \<or> ''reg'' = ''reg'') \<and> (0::int) \<le> 0x401000
   \<and> take 10 (drop 2 (args (fst (PropagateTaint_init example_env 0x401000 ''reg'' example_ida))))
       = [''--taint-reg'', ''0x401000'', ''--passes'', ''taint,run,map-terms,emit-ida-script'',
          ''--map-terms-using'', ''/tmp/ida-bap.scm'', ''--emit-ida-script-attr'', ''color'',
          ''--emit-ida-script-file'', ''/tmp/ida-bap.py'']
   \<and> filter (\<lambda>t. t = ''--taint-ptr'' \<or> t = ''--taint-reg'')
        (drop 2 (args (fst (PropagateTaint_init example_env 0x401000 ''reg'' example_ida))))
       = [''--taint-reg'']"
  using base_arguments_of_session [of "''reg''" "0x401000" example_env example_ida]
  by (simp add: init_args base_arguments_def primus_arguments_def example_env_simps
        resolve_parameters_fst or_str_def ENGINE_def format_X_example)

text \<open>
  Claim C2. When the resolved engine is not \<^verbatim>\<open>primus\<close> (Legacy), no appended token starts
  with \<^verbatim>\<open>--primus-\<close> or \<^verbatim>\<open>--run-entry-points\<close> (the file names handed out by
  \<^verbatim>\<open>tmpfile\<close> being paths, not options). When it is \<^verbatim>\<open>primus\<close>, the ten base arguments
  are followed by exactly: the entry point set to the function name of the address, the
  maximal length set to the resolved depth, the visited bound 64, the promiscuous-mode
  and greedy-scheduler flags, the two propagate-taint attribute flags, and the channel
  redirect naming the session's own stdin and stdout files.
\<close>

theorem engine_arguments:
  assumes "\<not> prefix ''--'' (tmpfile_name e ''scm'')" and "\<not> prefix ''--'' (tmpfile_name e ''py'')"
  shows "let s = fst (PropagateTaint_init e a k h);
             p = fst (resolve_parameters e h);
             built = drop (length (super_args e)) (args s)
         in (engine p \<noteq> ''primus'' \<longrightarrow>
               (\<forall>t \<in> set built. \<not> prefix ''--primus-'' t \<and> \<not> prefix ''--run-entry-points'' t))
          \<and> (engine p = ''primus'' \<longrightarrow>
               drop 10 built =
                 [''--run-entry-points='' @ GetFunctionName e a,
                  ''--primus-limit-max-length='' @ format_d (depth p),
                  ''--primus-limit-max-visited=64'',
                  ''--primus-promiscuous-mode'',
                  ''--primus-greedy-scheduler'',
                  ''--primus-propagate-taint-from-attributes'',
                  ''--primus-propagate-taint-to-attributes'',
                  ''--primus-lisp-channel-redirect=<stdin>:'' @ name (stdin s)
                     @ '',<stdout>:'' @ name (stdout s)])"
  using not_option_prefix [OF assms(1)] not_option_prefix [OF assms(2)]
  by (simp add: Let_def init_args init_names base_arguments_def primus_arguments_def
        resolve_parameters_fst format_d_LOOP_DEPTH format_X_def)

theorem engine_arguments_witness:
  "\<not> prefix ''--'' ''/tmp/ida-bap.scm'' \<and> \<not> prefix ''--'' ''/tmp/ida-bap.py''
   \<and> drop 12 (args (fst (PropagateTaint_init example_env 0x401000 ''reg'' example_ida))) =
        [''--run-entry-points=main'',
         ''--primus-limit-max-length=4096'',
         ''--primus-limit-max-visited=64'',
         ''--primus-promiscuous-mode'',
         ''--primus-greedy-scheduler'',
         ''--primus-propagate-taint-from-attributes'',
         ''--primus-propagate-taint-to-attributes'',
         ''--primus-lisp-channel-redirect=<stdin>:/tmp/ida-bap.stdin,<stdout>:/tmp/ida-bap.stdout'']
   \<and> filter (\<lambda>t. prefix ''--primus-'' t \<or> prefix ''--run-entry-points'' t)
        (drop 2 (args (fst (PropagateTaint_init
            (example_env\<lparr>askstr_answer := Some ''legacy''\<rparr>) 0x401000 ''ptr'' example_ida)))) = []"
  using engine_arguments [of example_env "0x401000" "''reg''" example_ida]
    engine_arguments [of "example_env\<lparr>askstr_answer := Some ''legacy''\<rparr>" "0x401000" "''ptr''"
      example_ida]
  by (simp add: init_args base_arguments_def primus_arguments_def example_env_def
        resolve_parameters_fst or_str_def or_long_def ENGINE_def format_d_DEPTH
        format_d_LOOP_DEPTH format_X_example)

text \<open>
  Claim C3. Whatever the address, the kind, the answers and the host state, the scheme
  file the session builder holds when the constructor returns (and so before the
  arguments can be handed over) consists of the four lines for gray, white, red and
  yellow in this order, each ended by a newline, and is closed; two sessions have the
  same scheme file contents.
\<close>

theorem color_scheme_file:
  "content (scheme (fst (PropagateTaint_init e a k h))) =
     ''((true) (color gray))'' @ [CHR 0x0A] @ ''((is-visited) (color white))'' @ [CHR 0x0A]
     @ ''((has-taints) (color red))'' @ [CHR 0x0A] @ ''((taints) (color yellow))'' @ [CHR 0x0A]
   \<and> closed (scheme (fst (PropagateTaint_init e a k h)))
   \<and> content (scheme (fst (PropagateTaint_init e a k h)))
       = content (scheme (fst (PropagateTaint_init e' a' k' h')))"
  by (simp add: init_scheme patterns_def scheme_line_def)

text \<open>
  Claim C4, as the code has it. Parameter resolution always returns: an empty or
  cancelled engine answer gives \<^verbatim>\<open>primus\<close>, a cancelled or zero length answer gives
  4096, the loop depth is 64 and is not asked for (the only prompts are the one for the
  engine and the one for the length). The resolved length is never zero, and any other
  answer, a negative one included, is kept as it is.
\<close>

theorem parameter_resolution:
  "let p = fst (resolve_parameters e h);
       h' = snd (resolve_parameters e h)
   in (askstr_answer e = None \<or> askstr_answer e = Some [] \<longrightarrow> engine p = ''primus'')
    \<and> (asklong_answer e = None \<or> asklong_answer e = Some 0 \<longrightarrow> depth p = 4096)
    \<and> (\<forall>n. asklong_answer e = Some n \<and> n \<noteq> 0 \<longrightarrow> depth p = n)
    \<and> depth p \<noteq> 0
    \<and> loop_depth p = 64
    \<and> journal h' = journal h @ [DisableScriptTimeout,
                                  AskStr 117342 ''primus'' ask_engine,
                                  AskLong 4096 ask_depth]"
  by (auto simp add: Let_def resolve_parameters_fst resolve_parameters_snd or_str_def
        or_long_def ENGINE_def DEPTH_def LOOP_DEPTH_def ENGINE_HISTORY_def
        split: option.splits)

theorem parameter_resolution_witness:
  "engine (fst (resolve_parameters example_env example_ida)) = ''primus''
   \<and> depth (fst (resolve_parameters example_env example_ida)) = 4096
   \<and> depth (fst (resolve_parameters (example_env\<lparr>asklong_answer := Some 100\<rparr>) example_ida)) = 100
   \<and> loop_depth (fst (resolve_parameters example_env example_ida)) = 64
   \<and> journal (snd (resolve_parameters example_env example_ida)) =
       [DisableScriptTimeout, AskStr 117342 ''primus'' ask_engine, AskLong 4096 ask_depth]"
  using parameter_resolution [of example_env example_ida]
    parameter_resolution [of "example_env\<lparr>asklong_answer := Some 100\<rparr>" example_ida]
  by (simp add: Let_def example_env_def example_ida_def)

text \<open>
  Claim C4 as stated fails: the answer \<open>-1\<close> to the length prompt is truthy, so it is
  the resolved length, which is then not greater than 0.
\<close>

theorem parameter_resolution_counterexample:
  "\<not> 0 < depth (fst (resolve_parameters (example_env\<lparr>asklong_answer := Some (- 1)\<rparr>)
                       example_ida))"
  by (simp add: resolve_parameters_fst or_long_def example_env_def)

text \<open>
  Claim C9, as the code has it. The constructor disables the script timeout first and
  asks its two questions after that; nothing re-enables the timeout, and when the
  constructor returns the timeout is disabled, whatever it was before.
\<close>

theorem timeout_disabled_before_prompts:
  "journal (snd (PropagateTaint_init e a k h)) =
     journal h @ [DisableScriptTimeout, AskStr ENGINE_HISTORY ENGINE ask_engine,
                  AskLong DEPTH ask_depth]
   \<and> \<not> script_timeout (snd (PropagateTaint_init e a k h))
   \<and> ScreenEA (snd (PropagateTaint_init e a k h)) = ScreenEA h"
  by (simp add: init_snd resolve_parameters_snd)

text \<open>
  Claim C9 as stated fails: the timeout is enabled before the session is built and
  disabled after it; nothing restores it.
\<close>

theorem timeout_restored_counterexample:
  "script_timeout example_ida
   \<and> \<not> script_timeout (snd (PropagateTaint_init example_env 0x401000 ''reg'' example_ida))"
  by (simp add: init_snd resolve_parameters_snd example_ida_def)

text \<open>
  Claim C10. An engine answer that is not empty and is not exactly the string
  \<^verbatim>\<open>primus\<close> selects the Legacy pipeline: the passes are \<^verbatim>\<open>taint\<close>,
  \<^verbatim>\<open>propagate-taint\<close>, \<^verbatim>\<open>map-terms\<close>, \<^verbatim>\<open>emit-ida-script\<close>, and only the ten base
  arguments are appended.
\<close>

theorem engine_exact_match:
  assumes "askstr_answer e = Some ans" and "ans \<noteq> []" and "ans \<noteq> ''primus''"
  shows "passes (fst (PropagateTaint_init e a k h)) =
           [''taint'', ''propagate-taint'', ''map-terms'', ''emit-ida-script'']
       \<and> args (fst (PropagateTaint_init e a k h)) =
           super_args e @
           [''--taint-'' @ k, ''0x'' @ format_X a,
            ''--passes'', ''taint,propagate-taint,map-terms,emit-ida-script'',
            ''--map-terms-using'', tmpfile_name e ''scm'',
            ''--emit-ida-script-attr'', ''color'',
            ''--emit-ida-script-file'', tmpfile_name e ''py'']"
  using assms
  by (simp add: init_args init_passes resolve_parameters_fst or_str_def base_arguments_def)

theorem engine_exact_match_witness:
  "passes (fst (PropagateTaint_init (example_env\<lparr>askstr_answer := Some ''Primus''\<rparr>)
              0x401000 ''ptr'' example_ida)) =
     [''taint'', ''propagate-taint'', ''map-terms'', ''emit-ida-script'']
   \<and> args (fst (PropagateTaint_init (example_env\<lparr>askstr_answer := Some ''Primus''\<rparr>)
              0x401000 ''ptr'' example_ida)) =
     [''bap'', ''/bin/true'', ''--taint-ptr'', ''0x401000'',
      ''--passes'', ''taint,propagate-taint,map-terms,emit-ida-script'',
      ''--map-terms-using'', ''/tmp/ida-bap.scm'',
      ''--emit-ida-script-attr'', ''color'',
      ''--emit-ida-script-file'', ''/tmp/ida-bap.py'']"
  using engine_exact_match [of "example_env\<lparr>askstr_answer := Some ''Primus''\<rparr>"
      "''Primus''" "0x401000" "''ptr''" example_ida]
  by (simp add: example_env_def format_X_example)

section \<open>Claims about the completion handler and the callback registry\<close>

text \<open>
  Claim C5, evaluated on the code. The session is started with the cursor at
  \<open>0x401000\<close> (so the engine is told \<^verbatim>\<open>--taint-reg 0x401000\<close>); the cursor is at
  \<open>0x402000\<close> when the engine completes. \<^verbatim>\<open>finish\<close> executes the generated script,
  refreshes the view, dispatches the register callbacks and refreshes again, in this
  order; but the dictionary the callback gets holds the address under the cursor at
  completion, \<open>0x402000\<close>, not the address the taint was propagated from.
\<close>

theorem finish_reports_cursor_address:
  "take 2 (drop 2 (args (fst (start example_plugin example_env example_ida))))
     = [''--taint-reg'', ''0x401000'']
   \<and> journal (fst (finish example_plugin quiet_registry
                     (fst (start example_plugin example_env example_ida))
                     (moved_cursor (snd (start example_plugin example_env example_ida)))))
     = [DisableScriptTimeout, AskStr ENGINE_HISTORY ENGINE ask_engine, AskLong DEPTH ask_depth,
        ExecScript ''/tmp/ida-bap.py'', RefreshIdaviewAnyway,
        Callback 7 [''ea'' \<mapsto> PInt 0x402000, ''ptr_or_reg'' \<mapsto> PStr ''reg''],
        Refresh]
   \<and> map (\<lambda>d. d ''ea'')
       (payloads_of 7 (journal (fst (finish example_plugin quiet_registry
                     (fst (start example_plugin example_env example_ida))
                     (moved_cursor (snd (start example_plugin example_env example_ida)))))))
     = [Some (PInt 0x402000)]"
  by (simp add: start_def finish_def init_args init_names init_snd resolve_parameters_snd
        resolve_parameters_fst base_arguments_def primus_arguments_def example_env_def
        example_plugin_def example_ida_def moved_cursor_def quiet_registry_def
        quiet_callback_def do_callbacks_def Let_def emit_def format_X_example or_str_def
        ENGINE_def)

text \<open>
  Claim C6, as the code has it. The callbacks registered for a kind are invoked in
  registration order, each with the dictionary as the one before it left it. Let \<open>n\<close>
  be the number of callbacks at the head of the sequence that return normally on the
  dictionary they are called with. The callbacks invoked are exactly the first \<open>n\<close>
  and, if there is one, the next: when \<open>n\<close> is the length of the sequence every
  callback is invoked and the dispatch returns normally; otherwise the callback at
  position \<open>n\<close> raises on the dictionary it is called with, the dispatch ends with
  its exception, and no callback after it is invoked. Nothing isolates the callbacks.
\<close>

theorem dispatch_in_order_until_raise:
  assumes "reg k = Some cbs"
  shows "let data = [''ea'' \<mapsto> PInt (ScreenEA h), ''ptr_or_reg'' \<mapsto> PStr k];
             n = returning cbs data
         in journal (fst (do_callbacks reg k h)) =
              journal h @ map (\<lambda>(c, x). Callback (cb_id c) x)
                            (take (Suc n) (zip cbs (handed cbs data)))
          \<and> invoked (journal (fst (do_callbacks reg k h))) =
              invoked (journal h) @ map cb_id (take (Suc n) cbs)
          \<and> snd (do_callbacks reg k h) =
              (if n = length cbs then None else Some (CallbackRaised (cb_id (cbs ! n))))
          \<and> n \<le> length cbs
          \<and> (\<forall>i < n. \<not> snd (cb_run (cbs ! i) (handed cbs data ! i)))
          \<and> (n < length cbs \<longrightarrow> snd (cb_run (cbs ! n) (handed cbs data ! n)))"
proof -
  let ?data = "[''ea'' \<mapsto> PInt (ScreenEA h), ''ptr_or_reg'' \<mapsto> PStr k]"
  let ?n = "returning cbs ?data"
  let ?calls = "take (Suc ?n) (zip cbs (handed cbs ?data))"
  have run: "do_callbacks reg k h = for_callbacks cbs ?data h"
    using assms by (simp add: do_callbacks_def)
  have jour: "journal (fst (do_callbacks reg k h)) =
                journal h @ map (\<lambda>(c, x). Callback (cb_id c) x) ?calls"
    unfolding run by (subst for_callbacks_trace) simp
  have res: "snd (do_callbacks reg k h) =
               (if ?n = length cbs then None else Some (CallbackRaised (cb_id (cbs ! ?n))))"
    unfolding run by (subst for_callbacks_trace) simp
  have "map (\<lambda>z. cb_id (fst z)) ?calls = map cb_id (map fst ?calls)"
    by simp
  also have "map fst ?calls = take (Suc ?n) cbs"
    by (simp add: take_map [symmetric] length_handed)
  finally have ids: "map (\<lambda>z. cb_id (fst z)) ?calls = map cb_id (take (Suc ?n) cbs)" .
  have inv: "invoked (journal (fst (do_callbacks reg k h))) =
               invoked (journal h) @ map cb_id (take (Suc ?n) cbs)"
    by (simp only: jour invoked_append invoked_calls ids)
  have before: "\<forall>i < ?n. \<not> snd (cb_run (cbs ! i) (handed cbs ?data ! i))"
    using returning_before by blast
  have at: "?n < length cbs \<longrightarrow> snd (cb_run (cbs ! ?n) (handed cbs ?data ! ?n))"
    using returning_at by blast
  show ?thesis
    unfolding Let_def using jour inv res returning_le before at by blast
qed

theorem dispatch_in_order_until_raise_witness:
  "invoked (journal (fst (do_callbacks picky_registry ''ptr'' example_ida))) = [1, 2]
   \<and> snd (do_callbacks picky_registry ''ptr'' example_ida) = Some (CallbackRaised 2)
   \<and> invoked (journal (fst (do_callbacks picky_registry ''reg'' example_ida))) = [1, 2, 3]
   \<and> snd (do_callbacks picky_registry ''reg'' example_ida) = None"
  using dispatch_in_order_until_raise [of picky_registry "''ptr''"
      "[quiet_callback 1, picky_callback 2, quiet_callback 3]" example_ida]
    dispatch_in_order_until_raise [of picky_registry "''reg''"
      "[quiet_callback 1, picky_callback 2, quiet_callback 3]" example_ida]
  by (simp add: picky_registry_def quiet_callback_def picky_callback_def example_ida_def
        do_callbacks_def Let_def emit_def returning_Cons returning_Nil)

text \<open>
  Claim C6 as stated fails: with the pointer callbacks 1, 2, 3 registered in this order
  and callback 2 raising, callback 3 is not invoked.
\<close>

theorem dispatch_isolation_counterexample:
  "3 \<notin> set (invoked (journal (fst (do_callbacks example_registry ''ptr'' example_ida))))
   \<and> map cb_id (the (example_registry ''ptr'')) = [1, 2, 3]"
  by (simp add: example_registry_def do_callbacks_def quiet_callback_def raising_callback_def
        example_ida_def Let_def emit_def)

text \<open>
  Claim C7, as the code has it. Installing a callback with no kind appends it to the
  pointer bucket and to the register bucket. If it was in neither before, and each
  callback registered before it returns normally on the dictionary of the dispatch
  and leaves it as it is, then a pointer dispatch followed by a register dispatch
  invokes it exactly twice, first with the kind \<^verbatim>\<open>ptr\<close> and then with the kind
  \<^verbatim>\<open>reg\<close>, and each of the two dispatches ends as the callback itself does:
  normally, or with its exception.
\<close>

theorem install_for_both_kinds:
  assumes "reg ''ptr'' = Some ps" and "reg ''reg'' = Some rs"
    and "\<forall>c \<in> set (ps @ rs). cb_id c \<noteq> cb_id cb"
    and "\<forall>c \<in> set ps. cb_run c [''ea'' \<mapsto> PInt (ScreenEA h), ''ptr_or_reg'' \<mapsto> PStr ''ptr'']
                        = ([''ea'' \<mapsto> PInt (ScreenEA h), ''ptr_or_reg'' \<mapsto> PStr ''ptr''], False)"
    and "\<forall>c \<in> set rs. cb_run c [''ea'' \<mapsto> PInt (ScreenEA h), ''ptr_or_reg'' \<mapsto> PStr ''reg'']
                        = ([''ea'' \<mapsto> PInt (ScreenEA h), ''ptr_or_reg'' \<mapsto> PStr ''reg''], False)"
  shows "let reg' = fst (install_callback repr cb PNone reg);
             dp = [''ea'' \<mapsto> PInt (ScreenEA h), ''ptr_or_reg'' \<mapsto> PStr ''ptr''];
             dr = [''ea'' \<mapsto> PInt (ScreenEA h), ''ptr_or_reg'' \<mapsto> PStr ''reg''];
             r1 = do_callbacks reg' ''ptr'' h;
             r2 = do_callbacks reg' ''reg'' (fst r1)
         in snd (install_callback repr cb PNone reg) = None
          \<and> reg' ''ptr'' = Some (ps @ [cb]) \<and> reg' ''reg'' = Some (rs @ [cb])
          \<and> payloads_of (cb_id cb) (drop (length (journal h)) (journal (fst r2))) = [dp, dr]
          \<and> snd r1 = (if snd (cb_run cb dp) then Some (CallbackRaised (cb_id cb)) else None)
          \<and> snd r2 = (if snd (cb_run cb dr) then Some (CallbackRaised (cb_id cb)) else None)"
proof -
  let ?reg' = "reg(''ptr'' \<mapsto> ps @ [cb], ''reg'' \<mapsto> rs @ [cb])"
  let ?dp = "[''ea'' \<mapsto> PInt (ScreenEA h), ''ptr_or_reg'' \<mapsto> PStr ''ptr'']"
  let ?dr = "[''ea'' \<mapsto> PInt (ScreenEA h), ''ptr_or_reg'' \<mapsto> PStr ''reg'']"
  let ?ep = "map (\<lambda>c. Callback (cb_id c) ?dp) ps @ [Callback (cb_id cb) ?dp]"
  let ?er = "map (\<lambda>c. Callback (cb_id c) ?dr) rs @ [Callback (cb_id cb) ?dr]"
  let ?h1 = "h\<lparr>journal := journal h @ ?ep\<rparr>"
  have inst: "install_callback repr cb PNone reg = (?reg', None)"
    using assms(1,2) by (rule install_callback_both)
  have reg': "fst (install_callback repr cb PNone reg) = ?reg'"
    and ok: "snd (install_callback repr cb PNone reg) = None"
    by (simp_all only: inst fst_conv snd_conv)
  have ps_other: "\<forall>c \<in> set ps. cb_id c \<noteq> cb_id cb"
    and rs_other: "\<forall>c \<in> set rs. cb_id c \<noteq> cb_id cb"
    using assms(3) by auto
  have bucket_p: "?reg' ''ptr'' = Some (ps @ [cb])" and bucket_r: "?reg' ''reg'' = Some (rs @ [cb])"
    by simp_all
  have r1: "do_callbacks ?reg' ''ptr'' h =
              (?h1, if snd (cb_run cb ?dp) then Some (CallbackRaised (cb_id cb)) else None)"
    using do_callbacks_after_quiet [of ?reg' "''ptr''" ps cb h, OF bucket_p assms(4)] by simp
  have same_ea: "ScreenEA ?h1 = ScreenEA h" by simp
  have quiet_r: "\<forall>c \<in> set rs. cb_run c [''ea'' \<mapsto> PInt (ScreenEA ?h1), ''ptr_or_reg'' \<mapsto> PStr ''reg'']
                   = ([''ea'' \<mapsto> PInt (ScreenEA ?h1), ''ptr_or_reg'' \<mapsto> PStr ''reg''], False)"
    unfolding same_ea by (rule assms(5))
  have r2: "do_callbacks ?reg' ''reg'' ?h1 =
              (h\<lparr>journal := journal h @ ?ep @ ?er\<rparr>,
               if snd (cb_run cb ?dr) then Some (CallbackRaised (cb_id cb)) else None)"
    using do_callbacks_after_quiet [of ?reg' "''reg''" rs cb ?h1, OF bucket_r quiet_r] by simp
  have pay: "payloads_of (cb_id cb) (?ep @ ?er) = [?dp, ?dr]"
    by (simp add: payloads_of_append payloads_of_others [OF ps_other]
          payloads_of_others [OF rs_other])
  have fst1: "fst (do_callbacks ?reg' ''ptr'' h) = ?h1" by (simp only: r1 fst_conv)
  have j2: "journal (fst (do_callbacks ?reg' ''reg'' ?h1)) = journal h @ ?ep @ ?er"
    by (simp only: r2 fst_conv) simp
  have pay2: "payloads_of (cb_id cb)
                (drop (length (journal h)) (journal (fst (do_callbacks ?reg' ''reg'' ?h1))))
              = [?dp, ?dr]"
    using pay by (simp only: j2) simp
  have s1: "snd (do_callbacks ?reg' ''ptr'' h) =
              (if snd (cb_run cb ?dp) then Some (CallbackRaised (cb_id cb)) else None)"
    by (simp only: r1 snd_conv)
  have s2: "snd (do_callbacks ?reg' ''reg'' ?h1) =
              (if snd (cb_run cb ?dr) then Some (CallbackRaised (cb_id cb)) else None)"
    by (simp only: r2 snd_conv)
  show ?thesis
    unfolding Let_def reg' fst1
    using ok bucket_p bucket_r pay2 s1 s2 by blast
qed

theorem install_for_both_kinds_witness:
  "snd (install_callback example_repr (raising_callback 9) PNone quiet_registry) = None
   \<and> map cb_id (the (fst (install_callback example_repr (raising_callback 9) PNone quiet_registry)
                        ''ptr'')) = [1, 9]
   \<and> map cb_id (the (fst (install_callback example_repr (raising_callback 9) PNone quiet_registry)
                        ''reg'')) = [7, 9]
   \<and> map (\<lambda>d. (d ''ea'', d ''ptr_or_reg''))
       (payloads_of 9
         (journal (fst (do_callbacks
              (fst (install_callback example_repr (raising_callback 9) PNone quiet_registry)) ''reg''
              (fst (do_callbacks
                 (fst (install_callback example_repr (raising_callback 9) PNone quiet_registry))
                 ''ptr'' example_ida))))))
     = [(Some (PInt 0x401000), Some (PStr ''ptr'')), (Some (PInt 0x401000), Some (PStr ''reg''))]
   \<and> snd (do_callbacks
            (fst (install_callback example_repr (raising_callback 9) PNone quiet_registry))
            ''ptr'' example_ida) = Some (CallbackRaised 9)"
  using install_for_both_kinds [of quiet_registry "[quiet_callback 1]" "[quiet_callback 7]"
      "raising_callback 9" example_ida example_repr]
  by (simp add: Let_def quiet_registry_def do_callbacks_def quiet_callback_def
        raising_callback_def example_ida_def emit_def)

text \<open>
  Claim C7 as stated fails: installed with no kind into a registry whose second pointer
  callback raises, the callback is in both buckets, but the pointer dispatch ends with
  that exception before reaching it; the two dispatches invoke it once, for \<^verbatim>\<open>reg\<close>.
\<close>

theorem install_for_both_kinds_counterexample:
  "map cb_id (the (fst (install_callback example_repr (quiet_callback 9) PNone example_registry)
                     ''ptr'')) = [1, 2, 3, 9]
   \<and> map cb_id (the (fst (install_callback example_repr (quiet_callback 9) PNone example_registry)
                     ''reg'')) = [7, 9]
   \<and> snd (do_callbacks
            (fst (install_callback example_repr (quiet_callback 9) PNone example_registry))
            ''ptr'' example_ida) = Some (CallbackRaised 2)
   \<and> map (\<lambda>d. d ''ptr_or_reg'')
       (payloads_of 9
         (journal (fst (do_callbacks
              (fst (install_callback example_repr (quiet_callback 9) PNone example_registry)) ''reg''
              (fst (do_callbacks
                 (fst (install_callback example_repr (quiet_callback 9) PNone example_registry))
                 ''ptr'' example_ida))))))
     = [Some (PStr ''reg'')]"
  by (simp add: Let_def example_registry_def do_callbacks_def quiet_callback_def
        raising_callback_def example_ida_def emit_def)

text \<open>
  Claim C8. Installing with a kind that is neither \<^verbatim>\<open>None\<close> nor \<^verbatim>\<open>'ptr'\<close> nor
  \<^verbatim>\<open>'reg'\<close> ends in \<^verbatim>\<open>idc.Fatal\<close> with a message naming the value, and the registry
  is the one before the call: neither bucket gains the callback.
\<close>

theorem install_invalid_kind:
  assumes "v \<noteq> PNone" and "v \<noteq> PStr ''ptr''" and "v \<noteq> PStr ''reg''"
  shows "install_callback repr cb v reg =
           (reg, Some (Fatal (''Invalid ptr_or_reg value passed '' @ repr v)))"
  using assms by (cases v) auto

theorem install_invalid_kind_witness:
  "install_callback example_repr (quiet_callback 7) (PStr ''bogus'') initial_callbacks =
     (initial_callbacks,
      Some (Fatal (''Invalid ptr_or_reg value passed '' @ example_repr (PStr ''bogus''))))
   \<and> fst (install_callback example_repr (quiet_callback 7) (PStr ''bogus'') initial_callbacks) ''ptr''
       = Some []
   \<and> fst (install_callback example_repr (quiet_callback 7) (PStr ''bogus'') initial_callbacks) ''reg''
       = Some []"
  using install_invalid_kind [of "PStr ''bogus''" example_repr "quiet_callback 7" initial_callbacks]
  by (simp add: initial_callbacks_def)

end
